theory Spec2Isabelle
  imports Complex_Main
begin

section \<open>Numbers, colours and vectors\<close>

text \<open>
  A JavaScript \<^verbatim>\<open>number\<close> is modelled as either \<open>NaN\<close> or a finite value
  \<open>Fin x\<close> with \<open>x\<close> a real. Arithmetic propagates \<open>NaN\<close>, every comparison with
  \<open>NaN\<close> is false, and \<open>NaN\<close> and zero are the falsy numbers. The rounding of
  IEEE-754 doubles and the two infinities are not represented: finite values are
  computed exactly.
\<close>

datatype number = NaN | Fin real

fun lift1 :: "(real \<Rightarrow> real) \<Rightarrow> number \<Rightarrow> number" where
  "lift1 f (Fin x) = Fin (f x)"
| "lift1 f NaN = NaN"

fun lift2 :: "(real \<Rightarrow> real \<Rightarrow> real) \<Rightarrow> number \<Rightarrow> number \<Rightarrow> number" where
  "lift2 f (Fin x) (Fin y) = Fin (f x y)"
| "lift2 f _ _ = NaN"

definition num_add :: "number \<Rightarrow> number \<Rightarrow> number" where
  "num_add = lift2 (+)"

definition num_sub :: "number \<Rightarrow> number \<Rightarrow> number" where
  "num_sub = lift2 (-)"

definition num_mul :: "number \<Rightarrow> number \<Rightarrow> number" where
  "num_mul = lift2 (*)"

definition Math_max :: "number \<Rightarrow> number \<Rightarrow> number" where
  "Math_max = lift2 max"

definition Math_cos :: "number \<Rightarrow> number" where
  "Math_cos = lift1 cos"

definition Math_sin :: "number \<Rightarrow> number" where
  "Math_sin = lift1 sin"

definition Math_PI :: number where
  "Math_PI = Fin pi"

text \<open>
  Division by zero, which gives an infinity or \<open>NaN\<close> in the program, is \<open>NaN\<close> here; the
  only divisor in the source is 180.
\<close>

fun num_div :: "number \<Rightarrow> number \<Rightarrow> number" where
  "num_div (Fin x) (Fin y) = (if y = 0 then NaN else Fin (x / y))"
| "num_div _ _ = NaN"

fun num_lt :: "number \<Rightarrow> number \<Rightarrow> bool" where
  "num_lt (Fin x) (Fin y) = (x < y)"
| "num_lt _ _ = False"

fun num_ge :: "number \<Rightarrow> number \<Rightarrow> bool" where
  "num_ge (Fin x) (Fin y) = (x \<ge> y)"
| "num_ge _ _ = False"

fun truthy :: "number \<Rightarrow> bool" where
  "truthy (Fin x) = (x \<noteq> 0)"
| "truthy NaN = False"

text \<open>\<^verbatim>\<open>THREE.Color(r, g, b)\<close> and \<^verbatim>\<open>THREE.Vector3(x, y, z)\<close> hold their three components.\<close>

datatype color = Color real real real

datatype 'a vector3 = Vector3 'a 'a 'a

section \<open>The star record\<close>

text \<open>The interface \<^verbatim>\<open>StarData\<close>: every field is optional, \<open>None\<close> is \<^verbatim>\<open>undefined\<close>.\<close>

record StarData =
  id :: "(string + number) option"
  name :: "string option"
  ra :: "number option"
  dec :: "number option"
  mag :: "number option"
  bv :: "number option"
  distance :: "number option"
  x :: "number option"
  y :: "number option"
  z :: "number option"
  spectralClass :: "string option"

section \<open>Coordinate and appearance mapping\<close>

text \<open>
  \<^verbatim>\<open>astronomicalToCartesian(ra, dec, distance = 50)\<close>: an omitted distance
  (\<open>None\<close>) takes the default 50.
\<close>

definition astronomicalToCartesian :: "number \<Rightarrow> number \<Rightarrow> number option \<Rightarrow> number vector3" where
  "astronomicalToCartesian ra' dec' distance' =
     (let d = (case distance' of None \<Rightarrow> Fin 50 | Some v \<Rightarrow> v);
          raRad = num_mul (num_mul ra' (Fin 15)) (num_div Math_PI (Fin 180));
          decRad = num_mul dec' (num_div Math_PI (Fin 180));
          px = num_mul (num_mul d (Math_cos decRad)) (Math_cos raRad);
          py = num_mul d (Math_sin decRad);
          pz = num_mul (num_mul d (Math_cos decRad)) (Math_sin raRad)
      in Vector3 px py pz)"

text \<open>
  \<^verbatim>\<open>String.prototype.toUpperCase\<close> on the first character, for the ASCII letters; other
  characters are left as they are.
\<close>

definition toUpperCase_char :: "char \<Rightarrow> char" where
  "toUpperCase_char c =
     (let n = (of_char c :: nat)
      in if 97 \<le> n \<and> n \<le> 122 then char_of (n - 32) else c)"

text \<open>
  \<^verbatim>\<open>getStarColor(bv, spectralClass)\<close>. The first argument lists the values the next
  calls of \<^verbatim>\<open>Math.random()\<close> return, in call order; only the default branch draws
  from it.
\<close>

definition getStarColor :: "(nat \<Rightarrow> real) \<Rightarrow> number option \<Rightarrow> string option \<Rightarrow> color" where
  "getStarColor rnd bv' spectralClass' =
     (case bv' of
        Some b \<Rightarrow>
          (if num_lt b (Fin (-0.4)) then Color 0.6 0.8 1.0
           else if num_lt b (Fin 0) then Color 0.8 0.9 1.0
           else if num_lt b (Fin 0.5) then Color 1.0 1.0 1.0
           else if num_lt b (Fin 1.0) then Color 1.0 1.0 0.7
           else if num_lt b (Fin 1.5) then Color 1.0 0.7 0.4
           else Color 1.0 0.5 0.3)
      | None \<Rightarrow>
          (case spectralClass' of
             Some (c # cs) \<Rightarrow>
               (let type = toUpperCase_char c
                in if type = CHR ''O'' then Color 0.6 0.8 1.0
                   else if type = CHR ''B'' then Color 0.8 0.9 1.0
                   else if type = CHR ''A'' then Color 1.0 1.0 1.0
                   else if type = CHR ''F'' then Color 1.0 1.0 0.9
                   else if type = CHR ''G'' then Color 1.0 1.0 0.7
                   else if type = CHR ''K'' then Color 1.0 0.7 0.4
                   else if type = CHR ''M'' then Color 1.0 0.5 0.3
                   else Color 1.0 1.0 1.0)
           | _ \<Rightarrow>
               Color (0.8 + rnd 0 * 0.2) (0.8 + rnd 1 * 0.2) (0.8 + rnd 2 * 0.2)))"

text \<open>\<^verbatim>\<open>magnitudeToSize(mag)\<close>.\<close>

definition magnitudeToSize :: "number option \<Rightarrow> number" where
  "magnitudeToSize mag' =
     (case mag' of
        None \<Rightarrow> Fin 1.0
      | Some m \<Rightarrow>
          Math_max (Fin 0.5) (num_sub (Fin 3.0) (num_mul (num_add m (Fin 2)) (Fin 0.5))))"

text \<open>
  The size rule in the words of the specification, on finite magnitudes:
  \<open>max(0.5, 3.0 - (mag + 2) * 0.5)\<close>.
\<close>

definition spec_size :: "real \<Rightarrow> real" where
  "spec_size m = max 0.5 (3.0 - (m + 2) * 0.5)"

section \<open>The fallback catalog\<close>

text \<open>The object literals of \<^verbatim>\<open>famousStars\<close>: name, ra, dec, mag, bv and spectralClass.\<close>

definition famous :: "string \<Rightarrow> real \<Rightarrow> real \<Rightarrow> real \<Rightarrow> real \<Rightarrow> string \<Rightarrow> StarData" where
  "famous n a e m b s =
     \<lparr>id = None, name = Some n, ra = Some (Fin a), dec = Some (Fin e), mag = Some (Fin m),
      bv = Some (Fin b), distance = None, x = None, y = None, z = None,
      spectralClass = Some s\<rparr>"

definition famousStars :: "StarData list" where
  "famousStars =
     [famous ''Sirius'' 6.75 (-16.72) (-1.46) 0.00 ''A1V'',
      famous ''Canopus'' 6.4 (-52.7) (-0.74) 0.15 ''A9II'',
      famous ''Arcturus'' 14.26 19.18 (-0.05) 1.23 ''K1.5III'',
      famous ''Vega'' 18.62 38.78 0.03 0.00 ''A0V'',
      famous ''Capella'' 5.28 45.99 0.08 0.80 ''G5III'',
      famous ''Rigel'' 5.24 (-8.20) 0.13 (-0.03) ''B8Iae'',
      famous ''Procyon'' 7.65 5.23 0.34 0.42 ''F5IV-V'',
      famous ''Betelgeuse'' 5.92 7.41 0.50 1.85 ''M1-2Ia-Iab'',
      famous ''Achernar'' 1.63 (-57.24) 0.46 (-0.19) ''B6Vep'',
      famous ''Altair'' 19.85 8.87 0.77 0.22 ''A7V'']"

text \<open>Decimal digits of a loop index, for the template string \<^verbatim>\<open>Star-${i}\<close>.\<close>

definition digit_char :: "nat \<Rightarrow> char" where
  "digit_char d = char_of (48 + d)"

function string_of_nat :: "nat \<Rightarrow> string" where
  "string_of_nat n =
     (if n < 10 then [digit_char n] else string_of_nat (n div 10) @ [digit_char (n mod 10)])"
  by pat_completeness auto
termination
  by (relation "measure (\<lambda>n. n)") auto

declare string_of_nat.simps [simp del]

definition spectral_letters :: "string list" where
  "spectral_letters = [''O'', ''B'', ''A'', ''F'', ''G'', ''K'', ''M'']"

text \<open>
  Indexing the seven-letter array with \<^verbatim>\<open>Math.floor(r * 7)\<close>; an index outside the
  array reads \<^verbatim>\<open>undefined\<close>.
\<close>

definition pick_letter :: "real \<Rightarrow> string option" where
  "pick_letter r =
     (let k = \<lfloor>r * 7\<rfloor>
      in if 0 \<le> k \<and> k < 7 then Some (spectral_letters ! nat k) else None)"

text \<open>
  The object pushed in iteration \<open>i\<close> of the generating loop. The loop is the first
  user of \<^verbatim>\<open>Math.random()\<close> in \<^verbatim>\<open>generateSampleStarData\<close> and draws five values per
  iteration, so iteration \<open>i\<close> reads the draws \<open>5 i\<close> to \<open>5 i + 4\<close> of the sequence
  \<open>rnd\<close>, in the order ra, dec, mag, bv, spectralClass.
\<close>

definition random_star :: "(nat \<Rightarrow> real) \<Rightarrow> nat \<Rightarrow> StarData" where
  "random_star rnd i =
     \<lparr>id = Some (Inr (Fin (real (i + length famousStars)))),
      name = Some (''Star-'' @ string_of_nat i),
      ra = Some (Fin (rnd (5 * i) * 24)),
      dec = Some (Fin ((rnd (5 * i + 1) - 0.5) * 180)),
      mag = Some (Fin (rnd (5 * i + 2) * 8 - 1)),
      bv = Some (Fin ((rnd (5 * i + 3) - 0.3) * 2)),
      distance = None, x = None, y = None, z = None,
      spectralClass = pick_letter (rnd (5 * i + 4))\<rparr>"

function gen_loop :: "(nat \<Rightarrow> real) \<Rightarrow> nat \<Rightarrow> StarData list \<Rightarrow> StarData list" where
  "gen_loop rnd i sampleStars =
     (if i < 2000 then gen_loop rnd (i + 1) (sampleStars @ [random_star rnd i])
      else sampleStars)"
  by pat_completeness auto
termination
  by (relation "measure (\<lambda>(rnd, i, sampleStars). 2000 - i)") auto

declare gen_loop.simps [simp del]

definition generateSampleStarData :: "(nat \<Rightarrow> real) \<Rightarrow> StarData list" where
  "generateSampleStarData rnd = gen_loop rnd 0 ([] @ famousStars)"

section \<open>Loading the catalog\<close>

datatype error = Error string | SyntaxError string | TypeError string

text \<open>
  An element of a parsed array. The loader assigns the array to a variable of type
  \<^verbatim>\<open>StarData[]\<close> without looking at its elements: an element is read as a star record
  (an element that is a boolean, number, string or array has none of the fields and
  reads like the object without properties), except \<^verbatim>\<open>null\<close>, on which reading any
  field throws.
\<close>

datatype entry = Null | Star StarData

text \<open>
  The value \<^verbatim>\<open>JSON.parse\<close> returns. An object is the list of its own properties.
\<close>

datatype json =
    JNull
  | JBool bool
  | JNum number
  | JStr string
  | JArr "entry list"
  | JObj "(string \<times> json) list"

text \<open>
  Reading a property: on \<^verbatim>\<open>null\<close> it throws a TypeError, on an object it is the
  property's value or \<^verbatim>\<open>undefined\<close> (\<open>None\<close>); booleans, numbers, strings and arrays
  have no property called \<^verbatim>\<open>stars\<close> or \<^verbatim>\<open>catalog\<close>.
\<close>

fun get_prop :: "json \<Rightarrow> string \<Rightarrow> error + json option" where
  "get_prop JNull k = Inl (TypeError ''Cannot read properties of null'')"
| "get_prop (JObj kvs) k = Inr (map_of kvs k)"
| "get_prop _ k = Inr None"

fun js_truthy :: "json option \<Rightarrow> bool" where
  "js_truthy None = False"
| "js_truthy (Some JNull) = False"
| "js_truthy (Some (JBool b)) = b"
| "js_truthy (Some (JNum n)) = truthy n"
| "js_truthy (Some (JStr s)) = (s \<noteq> [])"
| "js_truthy (Some (JArr xs)) = True"
| "js_truthy (Some (JObj kvs)) = True"

fun Array_isArray :: "json option \<Rightarrow> bool" where
  "Array_isArray (Some (JArr xs)) = True"
| "Array_isArray _ = False"

fun elements :: "json option \<Rightarrow> entry list" where
  "elements (Some (JArr xs)) = xs"
| "elements _ = []"

text \<open>
  The surroundings of the loader: \<^verbatim>\<open>window.fs\<close> may be missing, and so may its
  \<^verbatim>\<open>readFile\<close>; reading and parsing either return a value or throw.
\<close>

record env =
  window_fs :: "(string \<Rightarrow> error + string) option option"
  JSON_parse :: "string \<Rightarrow> error + json"

text \<open>The three accepted structures, tried in the order of the source.\<close>

definition select_array :: "json \<Rightarrow> error + entry list" where
  "select_array parsed =
     (if Array_isArray (Some parsed) then Inr (elements (Some parsed))
      else case get_prop parsed ''stars'' of
        Inl e \<Rightarrow> Inl e
      | Inr stars \<Rightarrow>
          if js_truthy stars \<and> Array_isArray stars then Inr (elements stars)
          else case get_prop parsed ''catalog'' of
            Inl e \<Rightarrow> Inl e
          | Inr catalog \<Rightarrow>
              if js_truthy catalog \<and> Array_isArray catalog then Inr (elements catalog)
              else Inl (Error ''Invalid JSON structure''))"

text \<open>The body of the inner \<^verbatim>\<open>try\<close>: \<open>Inl\<close> is what its \<^verbatim>\<open>catch\<close> receives.\<close>

definition read_catalog :: "env \<Rightarrow> error + entry list" where
  "read_catalog E =
     (case window_fs E of
        Some (Some readFile) \<Rightarrow>
          (case readFile ''data.json'' of
             Inl e \<Rightarrow> Inl e
           | Inr fileData \<Rightarrow>
               (case JSON_parse E fileData of
                  Inl e \<Rightarrow> Inl e
                | Inr parsed \<Rightarrow> select_array parsed))
      | _ \<Rightarrow> Inl (Error ''File system not available''))"

text \<open>The three pieces of component state the loader writes.\<close>

record ui =
  starCount :: nat
  loading :: bool
  error_text :: string

fun error_to_string :: "error \<Rightarrow> string" where
  "error_to_string (Error m) = ''Error: '' @ m"
| "error_to_string (SyntaxError m) = ''SyntaxError: '' @ m"
| "error_to_string (TypeError m) = ''TypeError: '' @ m"

text \<open>
  \<^verbatim>\<open>loadStarData\<close>: the outer \<^verbatim>\<open>try\<close> with its \<^verbatim>\<open>catch\<close> and \<^verbatim>\<open>finally\<close>. The state
  setters do not throw, so the body of the outer \<^verbatim>\<open>try\<close> always completes; \<open>Inl\<close> would
  be an exception that leaves the function. The generated records enter the catalog as
  its elements (\<open>Star\<close>).
\<close>

definition load_body :: "env \<Rightarrow> (nat \<Rightarrow> real) \<Rightarrow> ui \<Rightarrow> error + entry list \<times> ui" where
  "load_body E rnd u =
     (let u1 = u\<lparr>loading := True, error_text := []\<rparr>;
          starData = (case read_catalog E of
                        Inr found \<Rightarrow> found
                      | Inl fileError \<Rightarrow> map Star (generateSampleStarData rnd));
          u2 = u1\<lparr>starCount := length starData\<rparr>
      in Inr (starData, u2))"

definition loadStarData :: "env \<Rightarrow> (nat \<Rightarrow> real) \<Rightarrow> ui \<Rightarrow> error + entry list \<times> ui" where
  "loadStarData E rnd u =
     (let caught =
            (case load_body E rnd u of
               Inr r \<Rightarrow> Inr r
             | Inl err \<Rightarrow>
                 Inr (map Star (generateSampleStarData rnd),
                      u\<lparr>loading := True,
                        error_text := ''Error loading star data: '' @ error_to_string err\<rparr>))
      in case caught of
           Inr (starData, u') \<Rightarrow> Inr (starData, u'\<lparr>loading := False\<rparr>)
         | Inl err \<Rightarrow> Inl err)"

text \<open>
  The accepted structures in the words of the specification: a bare array, an object
  with a \<^verbatim>\<open>stars\<close> array, or an object with a \<^verbatim>\<open>catalog\<close> array.
\<close>

fun accepted_shape :: "json \<Rightarrow> bool" where
  "accepted_shape (JArr xs) = True"
| "accepted_shape (JObj kvs) =
     (Array_isArray (map_of kvs ''stars'') \<or> Array_isArray (map_of kvs ''catalog''))"
| "accepted_shape _ = False"

text \<open>
  Which surroundings leave no catalog to read, in the words of the specification: the
  file-read capability is missing, the read or the parse fails, or the parsed value has
  none of the accepted structures.
\<close>

definition catalog_unavailable :: "env \<Rightarrow> bool" where
  "catalog_unavailable E =
     (case window_fs E of
        None \<Rightarrow> True
      | Some None \<Rightarrow> True
      | Some (Some readFile) \<Rightarrow>
          (case readFile ''data.json'' of
             Inl e \<Rightarrow> True
           | Inr fileData \<Rightarrow>
               (case JSON_parse E fileData of
                  Inl e \<Rightarrow> True
                | Inr parsed \<Rightarrow> \<not> accepted_shape parsed)))"

text \<open>Concrete surroundings on which the results below are evaluated.\<close>

definition rnd_zero :: "nat \<Rightarrow> real" where
  "rnd_zero n = 0"

definition initial_ui :: ui where
  "initial_ui = \<lparr>starCount = 0, loading = True, error_text = []\<rparr>"

definition no_fs_env :: env where
  "no_fs_env = \<lparr>window_fs = None, JSON_parse = (\<lambda>t. Inl (SyntaxError ''Unexpected end of JSON input''))\<rparr>"

definition malformed_env :: env where
  "malformed_env =
     \<lparr>window_fs = Some (Some (\<lambda>p. Inr ''{ stars: ['')),
      JSON_parse = (\<lambda>t. Inl (SyntaxError ''Unexpected token s''))\<rparr>"

definition wrong_shape_env :: env where
  "wrong_shape_env =
     \<lparr>window_fs = Some (Some (\<lambda>p. Inr ''{ data: [] }'')),
      JSON_parse = (\<lambda>t. Inr (JObj [(''data'', JArr [])]))\<rparr>"


definition two_stars :: "entry list" where
  "two_stars =
     [Star (famous ''Sirius'' 6.75 (-16.72) (-1.46) 0.00 ''A1V''), Star (random_star rnd_zero 7)]"

definition catalog_env :: env where
  "catalog_env =
     \<lparr>window_fs = Some (Some (\<lambda>p. Inr ''{ catalog: [..] }'')),
      JSON_parse = (\<lambda>t. Inr (JObj [(''catalog'', JArr two_stars)]))\<rparr>"

section \<open>Placing a star\<close>

text \<open>
  \<^verbatim>\<open>a || b\<close> on an optional number: the left operand when it is truthy, otherwise the
  right one (\<^verbatim>\<open>undefined\<close>, \<open>NaN\<close> and zero are falsy).
\<close>

definition js_or :: "number option \<Rightarrow> number \<Rightarrow> number" where
  "js_or v alt = (case v of Some d \<Rightarrow> if truthy d then d else alt | None \<Rightarrow> alt)"

text \<open>
  The position computed for one star in \<^verbatim>\<open>createStarVisualization\<close>. The sequence
  \<open>rnd\<close> lists the values the next calls of \<^verbatim>\<open>Math.random()\<close> return.
\<close>

definition star_position :: "(nat \<Rightarrow> real) \<Rightarrow> StarData \<Rightarrow> number vector3" where
  "star_position rnd star =
     (if x star \<noteq> None \<and> y star \<noteq> None \<and> z star \<noteq> None
      then Vector3 (the (x star)) (the (y star)) (the (z star))
      else if ra star \<noteq> None \<and> dec star \<noteq> None
      then (let distance' = js_or (distance star) (Fin (50 + rnd 0 * 200))
            in astronomicalToCartesian (the (ra star)) (the (dec star)) (Some distance'))
      else Vector3 (Fin ((rnd 0 - 0.5) * 1000)) (Fin ((rnd 1 - 0.5) * 1000))
             (Fin ((rnd 2 - 0.5) * 1000)))"

definition zero_distance_star :: StarData where
  "zero_distance_star = (famous ''Sirius'' 6.75 (-16.72) (-1.46) 0.00 ''A1V'')\<lparr>distance := Some (Fin 0)\<rparr>"

definition nan_distance_star :: StarData where
  "nan_distance_star = (famous ''Vega'' 18.62 38.78 0.03 0.00 ''A0V'')\<lparr>distance := Some NaN\<rparr>"

definition near_star :: StarData where
  "near_star = (famous ''Altair'' 19.85 8.87 0.77 0.22 ''A7V'')\<lparr>distance := Some (Fin 5.13)\<rparr>"

section \<open>Building the scene\<close>











definition origin_star :: StarData where
  "origin_star =
     \<lparr>id = None, name = None, ra = Some (Fin 0), dec = Some (Fin 0), mag = None, bv = None,
      distance = Some (Fin 0), x = Some (Fin 0), y = Some (Fin 0), z = Some (Fin 0),
      spectralClass = None\<rparr>"

section \<open>The control state\<close>

text \<open>Operations of \<^verbatim>\<open>THREE.Vector3\<close> on real components.\<close>

definition zero_vector :: "real vector3" where
  "zero_vector = Vector3 0 0 0"

fun vlength :: "real vector3 \<Rightarrow> real" where
  "vlength (Vector3 a b c) = sqrt (a * a + b * b + c * c)"

fun multiplyScalar :: "real vector3 \<Rightarrow> real \<Rightarrow> real vector3" where
  "multiplyScalar (Vector3 a b c) s = Vector3 (a * s) (b * s) (c * s)"

fun crossVectors :: "real vector3 \<Rightarrow> real vector3 \<Rightarrow> real vector3" where
  "crossVectors (Vector3 ax ay az) (Vector3 bx by bz) =
     Vector3 (ay * bz - az * by) (az * bx - ax * bz) (ax * by - ay * bx)"

text \<open>\<^verbatim>\<open>normalize\<close> divides by \<^verbatim>\<open>length() || 1\<close>.\<close>

fun normalize :: "real vector3 \<Rightarrow> real vector3" where
  "normalize (Vector3 a b c) =
     (let l = vlength (Vector3 a b c); l' = (if l \<noteq> 0 then l else 1)
      in Vector3 (a / l') (b / l') (c / l'))"

fun addScaledVector :: "real vector3 \<Rightarrow> real vector3 \<Rightarrow> real \<Rightarrow> real vector3" where
  "addScaledVector (Vector3 a b c) (Vector3 va vb vc) s =
     Vector3 (a + va * s) (b + vb * s) (c + vc * s)"

fun lerp :: "real vector3 \<Rightarrow> real vector3 \<Rightarrow> real \<Rightarrow> real vector3" where
  "lerp (Vector3 a b c) (Vector3 va vb vc) alpha =
     Vector3 (a + (va - a) * alpha) (b + (vb - b) * alpha) (c + (vc - c) * alpha)"

text \<open>
  The record behind \<^verbatim>\<open>controlsRef\<close>. Every number stored in it comes from a constant,
  a pointer coordinate or a product and sum of such, so its numbers are finite and
  modelled as reals. \<^verbatim>\<open>keys\<close> maps a key code to the flag last written for it.
\<close>

record controls =
  mouseDown :: bool
  mouseX :: real
  mouseY :: real
  targetRotationX :: real
  targetRotationY :: real
  currentRotationX :: real
  currentRotationY :: real
  zoom :: real
  targetZoom :: real
  velocity :: "real vector3"
  acceleration :: "real vector3"
  baseSpeed :: real
  acceleratedSpeed :: real
  isAccelerating :: bool
  keys :: "string \<Rightarrow> bool option"

definition initial_controls :: controls where
  "initial_controls =
     \<lparr>mouseDown = False, mouseX = 0, mouseY = 0,
      targetRotationX = 0, targetRotationY = 0,
      currentRotationX = 0, currentRotationY = 0,
      zoom = 500, targetZoom = 500,
      velocity = Vector3 0 0 0, acceleration = Vector3 0 0 0,
      baseSpeed = 5, acceleratedSpeed = 50,
      isAccelerating = False, keys = (\<lambda>k. None)\<rparr>"

text \<open>A key flag read in a condition: an unwritten flag is \<^verbatim>\<open>undefined\<close>, which is falsy.\<close>

definition held :: "(string \<Rightarrow> bool option) \<Rightarrow> string \<Rightarrow> bool" where
  "held ks k = (ks k = Some True)"

definition handleKeyDown :: "string \<Rightarrow> controls \<Rightarrow> controls" where
  "handleKeyDown code c =
     (let ks = (keys c)(code \<mapsto> True)
      in c\<lparr>keys := ks, isAccelerating := held ks ''ShiftLeft'' \<or> held ks ''ShiftRight''\<rparr>)"

definition handleKeyUp :: "string \<Rightarrow> controls \<Rightarrow> controls" where
  "handleKeyUp code c =
     (let ks = (keys c)(code \<mapsto> False)
      in c\<lparr>keys := ks, isAccelerating := held ks ''ShiftLeft'' \<or> held ks ''ShiftRight''\<rparr>)"

definition handleMouseDown :: "real \<Rightarrow> real \<Rightarrow> controls \<Rightarrow> controls" where
  "handleMouseDown clientX clientY c = c\<lparr>mouseDown := True, mouseX := clientX, mouseY := clientY\<rparr>"

definition handleMouseUp :: "controls \<Rightarrow> controls" where
  "handleMouseUp c = c\<lparr>mouseDown := False\<rparr>"

text \<open>
  \<^verbatim>\<open>handleMouseMove\<close>: \<open>mounted\<close> says that the mount point, the pointer vector, the
  raycaster and the camera all exist; without them the handler returns at once. The
  hover lookup that follows the drag does not touch the control record.
\<close>

definition handleMouseMove :: "bool \<Rightarrow> real \<Rightarrow> real \<Rightarrow> controls \<Rightarrow> controls" where
  "handleMouseMove mounted clientX clientY c =
     (if \<not> mounted then c
      else if mouseDown c then
        (let deltaX = clientX - mouseX c;
             deltaY = clientY - mouseY c;
             c1 = c\<lparr>targetRotationY := targetRotationY c + deltaX * 0.01\<rparr>;
             c2 = c1\<lparr>targetRotationX := targetRotationX c1 + deltaY * 0.01\<rparr>;
             c3 = c2\<lparr>targetRotationX := max (- pi / 2) (min (pi / 2) (targetRotationX c2))\<rparr>
         in c3\<lparr>mouseX := clientX, mouseY := clientY\<rparr>)
      else c)"

definition handleWheel :: "real \<Rightarrow> controls \<Rightarrow> controls" where
  "handleWheel deltaY c =
     (let zoomSpeed = zoom c * 0.1;
          c1 = c\<lparr>targetZoom := targetZoom c + (if deltaY > 0 then zoomSpeed else - zoomSpeed)\<rparr>
      in c1\<lparr>targetZoom := max 10 (min 2000 (targetZoom c1))\<rparr>)"

text \<open>
  What a frame reads from the camera: its world direction and its up vector. The
  camera belongs to the rendering library; its position and the drawing are not part of
  the control record.
\<close>

record camera =
  worldDirection :: "real vector3"
  up :: "real vector3"

definition moveVector :: "(string \<Rightarrow> bool option) \<Rightarrow> real \<Rightarrow> real vector3" where
  "moveVector ks currentSpeed =
     (let z1 = (if held ks ''KeyW'' \<or> held ks ''ArrowUp'' then 0 - currentSpeed else 0);
          z2 = (if held ks ''KeyS'' \<or> held ks ''ArrowDown'' then z1 + currentSpeed else z1);
          x1 = (if held ks ''KeyA'' \<or> held ks ''ArrowLeft'' then 0 - currentSpeed else 0);
          x2 = (if held ks ''KeyD'' \<or> held ks ''ArrowRight'' then x1 + currentSpeed else x1);
          y1 = (if held ks ''KeyQ'' \<or> held ks ''Space'' then 0 + currentSpeed else 0);
          y2 = (if held ks ''KeyE'' \<or> held ks ''ControlLeft'' then y1 - currentSpeed else y1)
      in Vector3 x2 y2 z2)"

fun worldMovement :: "camera \<Rightarrow> real vector3 \<Rightarrow> real vector3" where
  "worldMovement cam (Vector3 mx my mz) =
     (let cameraDirection = worldDirection cam;
          right = normalize (crossVectors cameraDirection (up cam));
          up' = normalize (crossVectors right cameraDirection);
          w1 = addScaledVector zero_vector cameraDirection (- mz);
          w2 = addScaledVector w1 right mx
      in addScaledVector w2 up' my)"

text \<open>One run of \<^verbatim>\<open>animate\<close>, as far as it changes the control record.\<close>

definition animate :: "camera \<Rightarrow> controls \<Rightarrow> controls" where
  "animate cam c =
     (let currentSpeed = (if isAccelerating c then acceleratedSpeed c else baseSpeed c);
          mv = moveVector (keys c) currentSpeed;
          c1 = (if vlength mv > 0 then
                  (let w = worldMovement cam mv;
                       ca = c\<lparr>acceleration := w\<rparr>
                   in ca\<lparr>velocity := lerp (velocity ca) (acceleration ca) 0.1\<rparr>)
                else
                  (let cv = c\<lparr>velocity := multiplyScalar (velocity c) 0.9\<rparr>;
                       ca = cv\<lparr>acceleration := Vector3 0 0 0\<rparr>
                   in if vlength (velocity ca) < 0.1 then ca\<lparr>velocity := Vector3 0 0 0\<rparr>
                      else ca));
          c2 = (if \<not> held (keys c1) ''KeyW'' \<and> \<not> held (keys c1) ''KeyS'' \<and>
                   \<not> held (keys c1) ''KeyA'' \<and> \<not> held (keys c1) ''KeyD''
                then
                  (let cx = c1\<lparr>currentRotationX := currentRotationX c1 +
                              (targetRotationX c1 - currentRotationX c1) * 0.05\<rparr>
                   in cx\<lparr>currentRotationY := currentRotationY cx +
                              (targetRotationY cx - currentRotationY cx) * 0.05\<rparr>)
                else c1)
      in c2\<lparr>zoom := zoom c2 + (targetZoom c2 - zoom c2) * 0.1\<rparr>)"

text \<open>The events that reach the control record, and the record after a run of them.\<close>

datatype event =
    MouseDown real real
  | MouseUp
  | MouseMove bool real real
  | Wheel real
  | KeyDown string
  | KeyUp string
  | Frame camera

fun step :: "controls \<Rightarrow> event \<Rightarrow> controls" where
  "step c (MouseDown clientX clientY) = handleMouseDown clientX clientY c"
| "step c MouseUp = handleMouseUp c"
| "step c (MouseMove mounted clientX clientY) = handleMouseMove mounted clientX clientY c"
| "step c (Wheel deltaY) = handleWheel deltaY c"
| "step c (KeyDown code) = handleKeyDown code c"
| "step c (KeyUp code) = handleKeyUp code c"
| "step c (Frame cam) = animate cam c"

definition run :: "controls \<Rightarrow> event list \<Rightarrow> controls" where
  "run c evs = foldl step c evs"

text \<open>No key that feeds the movement vector is held.\<close>

definition no_movement_key :: "(string \<Rightarrow> bool option) \<Rightarrow> bool" where
  "no_movement_key ks =
     (\<not> held ks ''KeyW'' \<and> \<not> held ks ''ArrowUp'' \<and> \<not> held ks ''KeyS'' \<and>
      \<not> held ks ''ArrowDown'' \<and> \<not> held ks ''KeyA'' \<and> \<not> held ks ''ArrowLeft'' \<and>
      \<not> held ks ''KeyD'' \<and> \<not> held ks ''ArrowRight'' \<and> \<not> held ks ''KeyQ'' \<and>
      \<not> held ks ''Space'' \<and> \<not> held ks ''KeyE'' \<and> \<not> held ks ''ControlLeft'')"

text \<open>A number of frames after which a velocity of magnitude \<open>m\<close> has decayed to zero.\<close>

definition decay_frames :: "real \<Rightarrow> nat" where
  "decay_frames m = nat \<lceil>90 * m\<rceil> + 1"

definition level_camera :: camera where
  "level_camera = \<lparr>worldDirection = Vector3 0 0 (-1), up = Vector3 0 1 0\<rparr>"

definition drifting_controls :: controls where
  "drifting_controls = initial_controls\<lparr>velocity := Vector3 1 0 0\<rparr>"

text \<open>Both targets lie within their limits.\<close>

definition targets_clamped :: "controls \<Rightarrow> bool" where
  "targets_clamped c \<longleftrightarrow>
     10 \<le> targetZoom c \<and> targetZoom c \<le> 2000 \<and>
     - pi / 2 \<le> targetRotationX c \<and> targetRotationX c \<le> pi / 2"

section \<open>Colour bands\<close>

lemma getStarColor_NaN: "getStarColor rnd (Some NaN) sc = Color 1.0 0.5 0.3"
  by (simp add: getStarColor_def)

text \<open>
  Claim C1. Whenever a B-V index is present, the colour is the fixed triple of the band
  the index falls in, with the band limits -0.4, 0, 0.5, 1.0 and 1.5 compared as the
  program compares numbers; the spectral class that comes with it has no influence.
\<close>

theorem getStarColor_bands:
  "(num_lt b (Fin (-0.4)) \<longrightarrow> getStarColor rnd (Some b) sc = Color 0.6 0.8 1.0) \<and>
   (num_ge b (Fin (-0.4)) \<and> num_lt b (Fin 0) \<longrightarrow> getStarColor rnd (Some b) sc = Color 0.8 0.9 1.0) \<and>
   (num_ge b (Fin 0) \<and> num_lt b (Fin 0.5) \<longrightarrow> getStarColor rnd (Some b) sc = Color 1.0 1.0 1.0) \<and>
   (num_ge b (Fin 0.5) \<and> num_lt b (Fin 1.0) \<longrightarrow> getStarColor rnd (Some b) sc = Color 1.0 1.0 0.7) \<and>
   (num_ge b (Fin 1.0) \<and> num_lt b (Fin 1.5) \<longrightarrow> getStarColor rnd (Some b) sc = Color 1.0 0.7 0.4) \<and>
   (num_ge b (Fin 1.5) \<longrightarrow> getStarColor rnd (Some b) sc = Color 1.0 0.5 0.3)"
  by (cases b) (auto simp add: getStarColor_def)

theorem getStarColor_bands_witness:
  "getStarColor (\<lambda>_. 0) (Some (Fin (-1))) (Some ''M2'') = Color 0.6 0.8 1.0 \<and>
   getStarColor (\<lambda>_. 0) (Some (Fin (-0.4))) (Some ''M2'') = Color 0.8 0.9 1.0 \<and>
   getStarColor (\<lambda>_. 0) (Some (Fin 0)) (Some ''M2'') = Color 1.0 1.0 1.0 \<and>
   getStarColor (\<lambda>_. 0) (Some (Fin 0.5)) (Some ''M2'') = Color 1.0 1.0 0.7 \<and>
   getStarColor (\<lambda>_. 0) (Some (Fin 1)) None = Color 1.0 0.7 0.4 \<and>
   getStarColor (\<lambda>_. 0) (Some (Fin 1.5)) None = Color 1.0 0.5 0.3"
  using getStarColor_bands [of "Fin (-1)" "\<lambda>_. 0" "Some ''M2''"]
    getStarColor_bands [of "Fin (-0.4)" "\<lambda>_. 0" "Some ''M2''"]
    getStarColor_bands [of "Fin 0" "\<lambda>_. 0" "Some ''M2''"]
    getStarColor_bands [of "Fin 0.5" "\<lambda>_. 0" "Some ''M2''"]
    getStarColor_bands [of "Fin 1" "\<lambda>_. 0" "None"]
    getStarColor_bands [of "Fin 1.5" "\<lambda>_. 0" "None"]
  by simp

section \<open>Point size\<close>

lemma magnitudeToSize_NaN: "magnitudeToSize (Some NaN) = NaN"
  by (simp add: magnitudeToSize_def Math_max_def num_sub_def num_mul_def num_add_def)

lemma spec_size_lower: "0.5 \<le> spec_size m"
  by (simp add: spec_size_def)

lemma spec_size_clamped: "4 \<le> m \<Longrightarrow> spec_size m = 0.5"
  by (simp add: spec_size_def)

text \<open>
  Claim C2. On every magnitude the size is \<open>max(0.5, 3.0 - (m + 2) * 0.5)\<close> (which is
  \<open>NaN\<close> on \<open>NaN\<close>), an absent magnitude gives 1.0, magnitude 4 gives exactly 0.5 and
  magnitude -2 gives exactly 3.0.
\<close>

theorem magnitudeToSize_formula:
  "magnitudeToSize (Some n) = lift1 spec_size n \<and>
   magnitudeToSize (Some (Fin m)) = Fin (spec_size m) \<and>
   magnitudeToSize None = Fin 1.0 \<and>
   magnitudeToSize (Some (Fin 4)) = Fin 0.5 \<and>
   magnitudeToSize (Some (Fin (-2))) = Fin 3.0"
  by (cases n)
    (simp_all add: magnitudeToSize_def spec_size_def Math_max_def num_sub_def num_mul_def
      num_add_def)

section \<open>Spherical to Cartesian coordinates\<close>

lemma quarter_turn: "6 * 15 * (pi / 180) = pi / 2"
  by simp

text \<open>
  Claim C3. For finite right ascension \<open>a\<close> (hours), declination \<open>e\<close> (degrees) and
  distance \<open>d\<close> the result is the point
  \<open>(d cos(e') cos(a'), d sin(e'), d cos(e') sin(a'))\<close> with \<open>a' = a * 15 * pi / 180\<close> and
  \<open>e' = e * pi / 180\<close>; right ascension 0 and declination 0 give \<open>(d, 0, 0)\<close>, right
  ascension 6 and declination 0 give \<open>(0, 0, d)\<close>.
\<close>

theorem astronomicalToCartesian_formula:
  "astronomicalToCartesian (Fin a) (Fin e) (Some (Fin d)) =
     Vector3 (Fin (d * cos (e * pi / 180) * cos (a * 15 * pi / 180)))
             (Fin (d * sin (e * pi / 180)))
             (Fin (d * cos (e * pi / 180) * sin (a * 15 * pi / 180))) \<and>
   astronomicalToCartesian (Fin 0) (Fin 0) (Some (Fin d)) = Vector3 (Fin d) (Fin 0) (Fin 0) \<and>
   astronomicalToCartesian (Fin 6) (Fin 0) (Some (Fin d)) = Vector3 (Fin 0) (Fin 0) (Fin d)"
  by (simp add: astronomicalToCartesian_def Let_def num_mul_def Math_cos_def Math_sin_def
      Math_PI_def quarter_turn)

section \<open>The generated catalog\<close>

lemma gen_loop_eq:
  "i \<le> 2000 \<Longrightarrow> gen_loop rnd i acc = acc @ map (random_star rnd) [i..<2000]"
proof (induction rnd i acc rule: gen_loop.induct)
  case (1 rnd i sampleStars)
  show ?case
  proof (cases "i < 2000")
    case True
    then have "gen_loop rnd i sampleStars =
        gen_loop rnd (i + 1) (sampleStars @ [random_star rnd i])"
      by (simp add: gen_loop.simps [of rnd i])
    also have "\<dots> = (sampleStars @ [random_star rnd i]) @ map (random_star rnd) [i + 1..<2000]"
      using True "1.IH" by simp
    also have "\<dots> = sampleStars @ map (random_star rnd) [i..<2000]"
      using True by (simp add: upt_conv_Cons)
    finally show ?thesis .
  next
    case False
    with "1.prems" have "[i..<2000] = []" by simp
    with False show ?thesis by (simp add: gen_loop.simps [of rnd i])
  qed
qed

lemma generateSampleStarData_eq:
  "generateSampleStarData rnd = famousStars @ map (random_star rnd) [0..<2000]"
  by (simp add: generateSampleStarData_def gen_loop_eq)

lemma length_famousStars: "length famousStars = 10"
  by (simp add: famousStars_def)

lemma length_generateSampleStarData: "length (generateSampleStarData rnd) = 2010"
  by (simp add: generateSampleStarData_eq length_famousStars)

lemma generated_entry:
  "i < 2000 \<Longrightarrow> generateSampleStarData rnd ! (10 + i) = random_star rnd i"
  by (simp add: generateSampleStarData_eq nth_append length_famousStars)

section \<open>The loader\<close>

lemma js_truthy_array: "Array_isArray v \<Longrightarrow> js_truthy v"
  by (cases v rule: Array_isArray.cases) auto

lemma select_array_accepted: "accepted_shape p \<longleftrightarrow> (\<exists>xs. select_array p = Inr xs)"
  by (cases p)
    (auto simp add: select_array_def js_truthy_array split: option.splits json.splits)

lemma read_catalog_unavailable: "catalog_unavailable E \<longleftrightarrow> (\<exists>e. read_catalog E = Inl e)"
proof -
  have "(\<exists>e. select_array p = Inl e) \<longleftrightarrow> \<not> accepted_shape p" for p
    by (cases "select_array p") (simp_all add: select_array_accepted)
  then show ?thesis
    by (simp add: catalog_unavailable_def read_catalog_def split: option.splits sum.splits)
qed

lemma loadStarData_eq:
  "loadStarData E rnd u =
     Inr (case read_catalog E of Inr found \<Rightarrow> found
          | Inl e \<Rightarrow> map Star (generateSampleStarData rnd),
          u\<lparr>loading := False, error_text := [],
            starCount := length (case read_catalog E of Inr found \<Rightarrow> found
                                 | Inl e \<Rightarrow> map Star (generateSampleStarData rnd))\<rparr>)"
  by (simp add: loadStarData_def load_body_def Let_def)

text \<open>
  Claim C4. When the file-read capability is missing, the read or the parse throws, or
  the parsed value has none of the three accepted structures, the loader returns
  normally with the generated catalog: the 10 named stars followed by 2000 generated
  entries, 2010 records in all, and 2010 is the count it reports.
\<close>

theorem fallback_catalog:
  assumes "catalog_unavailable E"
  shows "loadStarData E rnd u =
           Inr (map Star (generateSampleStarData rnd),
                u\<lparr>loading := False, error_text := [], starCount := 2010\<rparr>) \<and>
         generateSampleStarData rnd = famousStars @ map (random_star rnd) [0..<2000] \<and>
         length famousStars = 10 \<and>
         length (generateSampleStarData rnd) = 2010"
proof -
  from assms obtain e where "read_catalog E = Inl e"
    by (auto simp add: read_catalog_unavailable)
  then have "loadStarData E rnd u =
      Inr (map Star (generateSampleStarData rnd),
           u\<lparr>loading := False, error_text := [], starCount := 2010\<rparr>)"
    by (simp add: loadStarData_eq length_generateSampleStarData)
  then show ?thesis
    by (simp add: generateSampleStarData_eq length_famousStars)
qed

theorem fallback_catalog_witness:
  "catalog_unavailable malformed_env \<and>
   loadStarData malformed_env rnd_zero initial_ui =
     Inr (map Star (generateSampleStarData rnd_zero),
          initial_ui\<lparr>loading := False, error_text := [], starCount := 2010\<rparr>) \<and>
   length (generateSampleStarData rnd_zero) = 2010"
proof -
  have h: "catalog_unavailable malformed_env"
    by (simp add: catalog_unavailable_def malformed_env_def)
  from fallback_catalog [OF h, of rnd_zero initial_ui] h show ?thesis
    by simp
qed

lemma fallback_other_causes:
  "catalog_unavailable no_fs_env" "catalog_unavailable wrong_shape_env"
  by (simp_all add: catalog_unavailable_def no_fs_env_def wrong_shape_env_def)

text \<open>
  Claim C6. A file that parses to an object whose \<^verbatim>\<open>catalog\<close> property is an array of N
  records (and whose \<^verbatim>\<open>stars\<close> property, if any, is not an array) is accepted: the
  loader returns those N records, reports the count N, and returns just what it returns
  when the same file parses to the bare array. The same holds for an object whose
  \<^verbatim>\<open>stars\<close> property is the array.
\<close>

theorem wrapped_array_same_as_bare:
  assumes "window_fs E = Some (Some readFile)"
    and "readFile ''data.json'' = Inr fileData"
    and "JSON_parse E fileData = Inr (JObj kvs)"
    and "map_of kvs ''stars'' = Some (JArr xs) \<or>
         (\<not> Array_isArray (map_of kvs ''stars'') \<and> map_of kvs ''catalog'' = Some (JArr xs))"
  shows "loadStarData E rnd u =
           Inr (xs, u\<lparr>loading := False, error_text := [], starCount := length xs\<rparr>) \<and>
         loadStarData E rnd u = loadStarData (E\<lparr>JSON_parse := (\<lambda>t. Inr (JArr xs))\<rparr>) rnd u"
proof -
  from assms(4) have "select_array (JObj kvs) = Inr xs"
    by (auto simp add: select_array_def)
  with assms(1-3) have wrapped: "read_catalog E = Inr xs"
    by (simp add: read_catalog_def)
  have "select_array (JArr xs) = Inr xs"
    by (simp add: select_array_def)
  with assms(1,2) have bare: "read_catalog (E\<lparr>JSON_parse := (\<lambda>t. Inr (JArr xs))\<rparr>) = Inr xs"
    by (simp add: read_catalog_def)
  show ?thesis
    by (simp add: loadStarData_eq wrapped bare)
qed

theorem wrapped_array_same_as_bare_witness:
  "loadStarData catalog_env rnd_zero initial_ui =
     Inr (two_stars, initial_ui\<lparr>loading := False, error_text := [], starCount := 2\<rparr>) \<and>
   loadStarData catalog_env rnd_zero initial_ui =
     loadStarData (catalog_env\<lparr>JSON_parse := (\<lambda>t. Inr (JArr two_stars))\<rparr>) rnd_zero initial_ui"
proof -
  have h1: "window_fs catalog_env = Some (Some (\<lambda>p. Inr ''{ catalog: [..] }''))"
    by (simp add: catalog_env_def)
  have h2: "(\<lambda>p. Inr ''{ catalog: [..] }'' :: error + string) ''data.json'' = Inr ''{ catalog: [..] }''"
    by simp
  have h3: "JSON_parse catalog_env ''{ catalog: [..] }'' = Inr (JObj [(''catalog'', JArr two_stars)])"
    by (simp add: catalog_env_def)
  have h4: "map_of [(''catalog'', JArr two_stars)] ''stars'' = Some (JArr two_stars) \<or>
      (\<not> Array_isArray (map_of [(''catalog'', JArr two_stars)] ''stars'') \<and>
       map_of [(''catalog'', JArr two_stars)] ''catalog'' = Some (JArr two_stars))"
    by simp
  have len: "length two_stars = 2"
    by (simp add: two_stars_def)
  note both = wrapped_array_same_as_bare [OF h1 h2 h3 h4, of rnd_zero initial_ui]
  from both len have "loadStarData catalog_env rnd_zero initial_ui =
      Inr (two_stars, initial_ui\<lparr>loading := False, error_text := [], starCount := 2\<rparr>)"
    by simp
  moreover from both have "loadStarData catalog_env rnd_zero initial_ui =
      loadStarData (catalog_env\<lparr>JSON_parse := (\<lambda>t. Inr (JArr two_stars))\<rparr>) rnd_zero initial_ui"
    by (rule conjunct2)
  ultimately show ?thesis by (rule conjI)
qed







section \<open>Ranges of the generated entries\<close>

lemma pick_letter_range:
  assumes "0 \<le> r" and "r < 1"
  shows "\<exists>s \<in> set spectral_letters. pick_letter r = Some s"
proof -
  have lo: "0 \<le> \<lfloor>r * 7\<rfloor>" using assms by simp
  have hi: "\<lfloor>r * 7\<rfloor> < 7" using assms by (simp add: floor_less_iff)
  from lo hi have picked: "pick_letter r = Some (spectral_letters ! nat \<lfloor>r * 7\<rfloor>)"
    unfolding pick_letter_def Let_def by (simp only: simp_thms if_True)
  from lo hi have "nat \<lfloor>r * 7\<rfloor> < 7"
    by linarith
  then have "nat \<lfloor>r * 7\<rfloor> < length spectral_letters"
    by (simp add: spectral_letters_def)
  then have "spectral_letters ! nat \<lfloor>r * 7\<rfloor> \<in> set spectral_letters"
    by (rule nth_mem)
  with picked show ?thesis
    by simp
qed

lemma random_star_ranges:
  assumes "\<And>n. 0 \<le> rnd n \<and> rnd n < 1"
  shows "\<exists>a m b s. ra (random_star rnd i) = Some (Fin a) \<and> 0 \<le> a \<and> a < 24 \<and>
           mag (random_star rnd i) = Some (Fin m) \<and> -1 \<le> m \<and> m < 7 \<and>
           bv (random_star rnd i) = Some (Fin b) \<and> -0.6 \<le> b \<and> b < 1.4 \<and>
           spectralClass (random_star rnd i) = Some s \<and> s \<in> set spectral_letters"
proof -
  obtain s where "s \<in> set spectral_letters" "pick_letter (rnd (5 * i + 4)) = Some s"
    using pick_letter_range assms by blast
  moreover have "0 \<le> rnd (5 * i) * 24" "rnd (5 * i) * 24 < 24"
    using assms [of "5 * i"] by simp_all
  moreover have "-1 \<le> rnd (5 * i + 2) * 8 - 1" "rnd (5 * i + 2) * 8 - 1 < 7"
    using assms [of "5 * i + 2"] by simp_all
  moreover have "-0.6 \<le> (rnd (5 * i + 3) - 0.3) * 2" "(rnd (5 * i + 3) - 0.3) * 2 < 1.4"
    using assms [of "5 * i + 3"] by simp_all
  ultimately show ?thesis
    by (simp add: random_star_def)
qed

text \<open>
  Claim C5 at a failing input: when the fourth draw of the first iteration is 0, the
  first generated entry (index 10 of the catalog) has B-V index -0.6, below -0.3.
\<close>

theorem generated_bv_below_range:
  "bv (generateSampleStarData rnd_zero ! 10) = Some (Fin (-0.6)) \<and>
   num_lt (Fin (-0.6)) (Fin (-0.3))"
proof -
  have "generateSampleStarData rnd_zero ! (10 + 0) = random_star rnd_zero 0"
    by (rule generated_entry) simp
  then show ?thesis
    by (simp add: random_star_def rnd_zero_def)
qed

section \<open>Falsy distances\<close>

lemma falsy_iff: "\<not> truthy d \<longleftrightarrow> d = Fin 0 \<or> d = NaN"
  by (cases d) auto

text \<open>
  Claim C10 as stated fails: a record with right ascension, declination and distance 0
  that also carries the direct coordinates (0, 0, 0) is placed at the origin; nothing is
  substituted for its distance.
\<close>

theorem direct_coordinates_counterexample:
  "ra origin_star = Some (Fin 0) \<and> dec origin_star = Some (Fin 0) \<and>
   distance origin_star = Some (Fin 0) \<and>
   star_position rnd_zero origin_star = Vector3 (Fin 0) (Fin 0) (Fin 0) \<and>
   astronomicalToCartesian (Fin 0) (Fin 0) (Some (Fin (50 + rnd_zero 0 * 200))) =
     Vector3 (Fin 50) (Fin 0) (Fin 0) \<and>
   star_position rnd_zero origin_star \<noteq>
     astronomicalToCartesian (Fin 0) (Fin 0) (Some (Fin (50 + rnd_zero 0 * 200)))"
proof -
  have placed: "star_position rnd_zero origin_star = Vector3 (Fin 0) (Fin 0) (Fin 0)"
    by (simp add: star_position_def origin_star_def)
  have substituted:
    "astronomicalToCartesian (Fin 0) (Fin 0) (Some (Fin (50 + rnd_zero 0 * 200))) =
       Vector3 (Fin 50) (Fin 0) (Fin 0)"
    by (simp add: astronomicalToCartesian_def Let_def num_mul_def Math_cos_def Math_sin_def
        Math_PI_def rnd_zero_def)
  have differ: "star_position rnd_zero origin_star \<noteq>
      astronomicalToCartesian (Fin 0) (Fin 0) (Some (Fin (50 + rnd_zero 0 * 200)))"
    unfolding placed substituted by simp
  have fields: "ra origin_star = Some (Fin 0) \<and> dec origin_star = Some (Fin 0) \<and>
      distance origin_star = Some (Fin 0)"
    by (simp add: origin_star_def)
  from fields placed substituted differ show ?thesis
    by blast
qed

text \<open>
  Claim C10, amended. A distance of zero or \<open>NaN\<close> leaves every star where it would be
  with no distance at all. When the star is placed from its right ascension and
  declination, that is, it has both and lacks at least one of the direct coordinates
  (a full set takes priority and is used unmodified), such a distance is replaced by
  50 plus a random offset in [0, 200), and any other distance is the one the star is
  placed at.
\<close>

theorem falsy_distance_replaced:
  assumes "distance star = Some d"
  shows "(d = Fin 0 \<or> d = NaN \<longrightarrow>
            star_position rnd star = star_position rnd (star\<lparr>distance := None\<rparr>)) \<and>
         (ra star = Some a \<and> dec star = Some e \<and>
          (x star = None \<or> y star = None \<or> z star = None) \<longrightarrow>
            (d = Fin 0 \<or> d = NaN \<longrightarrow>
               star_position rnd star =
                 astronomicalToCartesian a e (Some (Fin (50 + rnd 0 * 200)))) \<and>
            (d \<noteq> Fin 0 \<and> d \<noteq> NaN \<longrightarrow>
               star_position rnd star = astronomicalToCartesian a e (Some d))) \<and>
         (0 \<le> rnd 0 \<and> rnd 0 < 1 \<longrightarrow> 0 \<le> rnd 0 * 200 \<and> rnd 0 * 200 < 200)"
proof -
  have same: "star_position rnd star = star_position rnd (star\<lparr>distance := None\<rparr>)"
    if "d = Fin 0 \<or> d = NaN"
    using that assms by (auto simp add: star_position_def js_or_def)
  have placed: "star_position rnd star =
      astronomicalToCartesian a e (Some (js_or (Some d) (Fin (50 + rnd 0 * 200))))"
    if "ra star = Some a" "dec star = Some e" "x star = None \<or> y star = None \<or> z star = None"
    using that assms by (auto simp add: star_position_def)
  have replaced: "js_or (Some d) alt = alt" if "d = Fin 0 \<or> d = NaN" for alt
    using that by (auto simp add: js_or_def)
  have kept: "js_or (Some d) alt = d" if "d \<noteq> Fin 0 \<and> d \<noteq> NaN" for alt
    using that falsy_iff [of d] by (auto simp add: js_or_def)
  have c1: "d = Fin 0 \<or> d = NaN \<longrightarrow>
      star_position rnd star = star_position rnd (star\<lparr>distance := None\<rparr>)"
    using same by (rule impI)
  have c2: "ra star = Some a \<and> dec star = Some e \<and>
      (x star = None \<or> y star = None \<or> z star = None) \<longrightarrow>
      (d = Fin 0 \<or> d = NaN \<longrightarrow>
         star_position rnd star =
           astronomicalToCartesian a e (Some (Fin (50 + rnd 0 * 200)))) \<and>
      (d \<noteq> Fin 0 \<and> d \<noteq> NaN \<longrightarrow>
         star_position rnd star = astronomicalToCartesian a e (Some d))"
  proof (intro impI conjI)
    assume astro: "ra star = Some a \<and> dec star = Some e \<and>
      (x star = None \<or> y star = None \<or> z star = None)"
    assume "d = Fin 0 \<or> d = NaN"
    then have "js_or (Some d) (Fin (50 + rnd 0 * 200)) = Fin (50 + rnd 0 * 200)"
      by (rule replaced)
    with placed astro show "star_position rnd star =
        astronomicalToCartesian a e (Some (Fin (50 + rnd 0 * 200)))"
      by simp
  next
    assume astro: "ra star = Some a \<and> dec star = Some e \<and>
      (x star = None \<or> y star = None \<or> z star = None)"
    assume "d \<noteq> Fin 0 \<and> d \<noteq> NaN"
    then have "js_or (Some d) (Fin (50 + rnd 0 * 200)) = d"
      by (rule kept)
    with placed astro show "star_position rnd star = astronomicalToCartesian a e (Some d)"
      by simp
  qed
  have c3: "0 \<le> rnd 0 \<and> rnd 0 < 1 \<longrightarrow> 0 \<le> rnd 0 * 200 \<and> rnd 0 * 200 < 200"
    by simp
  from c1 c2 c3 show ?thesis
    by (intro conjI)
qed

theorem falsy_distance_replaced_witness:
  "star_position rnd_zero zero_distance_star =
     star_position rnd_zero (zero_distance_star\<lparr>distance := None\<rparr>) \<and>
   star_position rnd_zero zero_distance_star =
     astronomicalToCartesian (Fin 6.75) (Fin (-16.72)) (Some (Fin 50)) \<and>
   star_position rnd_zero nan_distance_star =
     astronomicalToCartesian (Fin 18.62) (Fin 38.78) (Some (Fin 50)) \<and>
   star_position rnd_zero near_star =
     astronomicalToCartesian (Fin 19.85) (Fin 8.87) (Some (Fin 5.13))"
proof -
  have zero: "distance zero_distance_star = Some (Fin 0)"
    and zero_astro: "ra zero_distance_star = Some (Fin 6.75) \<and>
      dec zero_distance_star = Some (Fin (-16.72)) \<and>
      (x zero_distance_star = None \<or> y zero_distance_star = None \<or> z zero_distance_star = None)"
    by (simp_all add: zero_distance_star_def famous_def)
  have nan: "distance nan_distance_star = Some NaN"
    and nan_astro: "ra nan_distance_star = Some (Fin 18.62) \<and>
      dec nan_distance_star = Some (Fin 38.78) \<and>
      (x nan_distance_star = None \<or> y nan_distance_star = None \<or> z nan_distance_star = None)"
    by (simp_all add: nan_distance_star_def famous_def)
  have near: "distance near_star = Some (Fin 5.13)"
    and near_astro: "ra near_star = Some (Fin 19.85) \<and> dec near_star = Some (Fin 8.87) \<and>
      (x near_star = None \<or> y near_star = None \<or> z near_star = None)"
    by (simp_all add: near_star_def famous_def)
  have fifty: "50 + rnd_zero 0 * 200 = 50"
    by (simp add: rnd_zero_def)
  note at_zero = falsy_distance_replaced [OF zero, of rnd_zero "Fin 6.75" "Fin (-16.72)"]
  have z1: "star_position rnd_zero zero_distance_star =
      star_position rnd_zero (zero_distance_star\<lparr>distance := None\<rparr>)"
    using at_zero by blast
  have "star_position rnd_zero zero_distance_star =
      astronomicalToCartesian (Fin 6.75) (Fin (-16.72)) (Some (Fin (50 + rnd_zero 0 * 200)))"
    using at_zero zero_astro by blast
  then have z2: "star_position rnd_zero zero_distance_star =
      astronomicalToCartesian (Fin 6.75) (Fin (-16.72)) (Some (Fin 50))"
    unfolding fifty .
  have "star_position rnd_zero nan_distance_star =
      astronomicalToCartesian (Fin 18.62) (Fin 38.78) (Some (Fin (50 + rnd_zero 0 * 200)))"
    using falsy_distance_replaced [OF nan, of rnd_zero "Fin 18.62" "Fin 38.78"] nan_astro
    by blast
  then have n1: "star_position rnd_zero nan_distance_star =
      astronomicalToCartesian (Fin 18.62) (Fin 38.78) (Some (Fin 50))"
    unfolding fifty .
  have far: "Fin 5.13 \<noteq> Fin 0 \<and> Fin 5.13 \<noteq> NaN"
    by simp
  have f1: "star_position rnd_zero near_star =
      astronomicalToCartesian (Fin 19.85) (Fin 8.87) (Some (Fin 5.13))"
    using falsy_distance_replaced [OF near, of rnd_zero "Fin 19.85" "Fin 8.87"] near_astro far
    by blast
  from z1 z2 n1 f1 show ?thesis
    by (intro conjI)
qed

section \<open>Clamped targets\<close>

lemma animate_targets:
  "targetZoom (animate cam c) = targetZoom c" "targetRotationX (animate cam c) = targetRotationX c"
  "keys (animate cam c) = keys c"
  by (simp_all add: animate_def Let_def)

lemma clamp_bounds:
  fixes lo hi t :: real
  assumes "lo \<le> hi"
  shows "lo \<le> max lo (min hi t)" "max lo (min hi t) \<le> hi"
  using assms by simp_all

lemma handleWheel_targets:
  "10 \<le> targetZoom (handleWheel d c)" "targetZoom (handleWheel d c) \<le> 2000"
  "targetRotationX (handleWheel d c) = targetRotationX c"
  by (simp_all add: handleWheel_def Let_def)

lemma handleMouseMove_zoom: "targetZoom (handleMouseMove m a b c) = targetZoom c"
  by (simp add: handleMouseMove_def Let_def)

lemma handleMouseMove_rotation:
  "targetRotationX (handleMouseMove m a b c) = targetRotationX c \<or>
   (\<exists>t. targetRotationX (handleMouseMove m a b c) = max (- pi / 2) (min (pi / 2) t))"
  by (auto simp add: handleMouseMove_def Let_def)

lemma clamped_handleMouseMove:
  assumes "targets_clamped c"
  shows "targets_clamped (handleMouseMove m a b c)"
proof -
  have half: "- pi / 2 \<le> pi / 2" using pi_ge_zero by simp
  from handleMouseMove_rotation [of m a b c]
  have "- pi / 2 \<le> targetRotationX (handleMouseMove m a b c) \<and>
      targetRotationX (handleMouseMove m a b c) \<le> pi / 2"
  proof
    assume "targetRotationX (handleMouseMove m a b c) = targetRotationX c"
    with assms show ?thesis by (simp add: targets_clamped_def)
  next
    assume "\<exists>t. targetRotationX (handleMouseMove m a b c) = max (- pi / 2) (min (pi / 2) t)"
    then obtain t where "targetRotationX (handleMouseMove m a b c) = max (- pi / 2) (min (pi / 2) t)" ..
    with clamp_bounds [OF half, of t] show ?thesis by simp
  qed
  with assms show ?thesis
    by (simp add: targets_clamped_def handleMouseMove_zoom)
qed

lemma clamped_step: "targets_clamped c \<Longrightarrow> targets_clamped (step c ev)"
proof (cases ev)
  case (Frame cam)
  assume "targets_clamped c"
  then show ?thesis using Frame by (simp add: targets_clamped_def animate_targets)
next
  case (Wheel d)
  assume "targets_clamped c"
  then show ?thesis using Wheel by (simp add: targets_clamped_def handleWheel_targets)
next
  case (MouseMove m a b)
  assume "targets_clamped c"
  then show ?thesis using MouseMove by (simp add: clamped_handleMouseMove)
qed (simp_all add: targets_clamped_def handleMouseDown_def handleMouseUp_def handleKeyDown_def handleKeyUp_def Let_def)

lemma clamped_run: "targets_clamped c \<Longrightarrow> targets_clamped (run c evs)"
  unfolding run_def by (induction evs arbitrary: c) (simp_all add: clamped_step)

lemma clamped_init: "targets_clamped initial_controls"
  by (simp add: targets_clamped_def initial_controls_def)


text \<open>
  Claim C7. After any finite run of events from the initial control record (wheel,
  pointer, key and frame events of any values, in any order) the zoom target lies in
  [10, 2000] and the vertical rotation target in [-pi/2, pi/2].
\<close>

theorem targets_stay_clamped:
  "10 \<le> targetZoom (run initial_controls evs) \<and>
   targetZoom (run initial_controls evs) \<le> 2000 \<and>
   - pi / 2 \<le> targetRotationX (run initial_controls evs) \<and>
   targetRotationX (run initial_controls evs) \<le> pi / 2"
  using clamped_run [OF clamped_init, of evs] by (simp add: targets_clamped_def)

section \<open>Velocity decay\<close>

lemma vlength_multiplyScalar: "vlength (multiplyScalar v s) = \<bar>s\<bar> * vlength v"
proof (cases v)
  case (Vector3 a b c)
  have "a * s * (a * s) + b * s * (b * s) + c * s * (c * s) = s\<^sup>2 * (a * a + b * b + c * c)"
    by (simp add: power2_eq_square algebra_simps)
  then show ?thesis
    using Vector3 by (simp add: real_sqrt_mult)
qed

lemma multiplyScalar_twice: "multiplyScalar (multiplyScalar v s) t = multiplyScalar v (s * t)"
  by (cases v) (simp add: mult.assoc)

lemma moveVector_idle: "no_movement_key ks \<Longrightarrow> moveVector ks s = Vector3 0 0 0"
  by (simp add: no_movement_key_def moveVector_def)

lemma animate_idle:
  assumes "no_movement_key (keys c)"
  shows "velocity (animate cam c) =
     (if vlength (multiplyScalar (velocity c) 0.9) < 0.1 then Vector3 0 0 0
      else multiplyScalar (velocity c) 0.9)"
  using assms by (simp add: animate_def Let_def moveVector_idle)

lemma frames_keys: "keys (run c (map Frame cams)) = keys c"
  unfolding run_def by (induction cams arbitrary: c) (simp_all add: animate_targets)

lemma frames_velocity:
  assumes "no_movement_key (keys c)"
  shows "velocity (run c (map Frame cams)) = Vector3 0 0 0 \<or>
         (velocity (run c (map Frame cams)) = multiplyScalar (velocity c) (0.9 ^ length cams) \<and>
          (cams \<noteq> [] \<longrightarrow> 0.1 \<le> vlength (velocity (run c (map Frame cams)))))"
proof (induction cams rule: rev_induct)
  case Nil
  show ?case by (cases "velocity c") (simp add: run_def)
next
  case (snoc cam cams)
  let ?c = "run c (map Frame cams)"
  let ?c' = "animate cam ?c"
  have idle: "no_movement_key (keys ?c)"
    using assms by (simp add: frames_keys)
  have next_frame: "run c (map Frame (cams @ [cam])) = ?c'"
    by (simp add: run_def)
  have "velocity ?c' = Vector3 0 0 0 \<or>
      (velocity ?c' = multiplyScalar (velocity c) (0.9 ^ Suc (length cams)) \<and>
       0.1 \<le> vlength (velocity ?c'))"
    using snoc.IH
  proof
    assume "velocity ?c = Vector3 0 0 0"
    then have "velocity ?c' = Vector3 0 0 0"
      by (simp add: animate_idle [OF idle])
    then show ?thesis ..
  next
    assume "velocity ?c = multiplyScalar (velocity c) (0.9 ^ length cams) \<and>
      (cams \<noteq> [] \<longrightarrow> 0.1 \<le> vlength (velocity ?c))"
    then have v: "multiplyScalar (velocity ?c) 0.9 =
        multiplyScalar (velocity c) (0.9 ^ Suc (length cams))"
      by (simp add: multiplyScalar_twice mult.commute)
    show ?thesis
    proof (cases "vlength (multiplyScalar (velocity ?c) 0.9) < 0.1")
      case True
      then have "velocity ?c' = Vector3 0 0 0"
        by (simp add: animate_idle [OF idle])
      then show ?thesis ..
    next
      case False
      then have same: "velocity ?c' = multiplyScalar (velocity ?c) 0.9"
        by (simp add: animate_idle [OF idle])
      with False have "0.1 \<le> vlength (velocity ?c')"
        by simp
      with same v show ?thesis by simp
    qed
  qed
  then show ?case
    unfolding next_frame by simp
qed

lemma decay_power: "(0.9::real) ^ n \<le> 9 / (9 + real n)"
proof -
  have "1 + real n * (1 / 9) \<le> (1 + 1 / 9 :: real) ^ n"
    by (rule Bernoulli_inequality) simp
  then have low: "(9 + real n) / 9 \<le> (10 / 9 :: real) ^ n"
    by (simp add: field_simps)
  have unit: "(0.9::real) ^ n * (10 / 9) ^ n = 1"
    by (simp add: power_mult_distrib [symmetric])
  have "(0.9::real) ^ n * ((9 + real n) / 9) \<le> 0.9 ^ n * (10 / 9) ^ n"
    using low by (rule mult_left_mono) simp
  with unit have "(0.9::real) ^ n * (9 + real n) \<le> 9"
    by simp
  then show ?thesis
    by (simp add: pos_le_divide_eq)
qed

text \<open>
  Claim C8. With no movement key held, whatever the velocity and whatever the camera
  does, after \<open>decay_frames m\<close> frames or more, \<open>m\<close> being the magnitude of the velocity
  at the start, the velocity is exactly the zero vector.
\<close>

theorem velocity_decays_to_zero:
  assumes "no_movement_key (keys c)"
    and "decay_frames (vlength (velocity c)) \<le> length cams"
  shows "velocity (run c (map Frame cams)) = Vector3 0 0 0"
proof (rule ccontr)
  let ?m = "vlength (velocity c)"
  let ?n = "length cams"
  assume nz: "velocity (run c (map Frame cams)) \<noteq> Vector3 0 0 0"
  from assms(2) have pos: "cams \<noteq> []"
    by (auto simp add: decay_frames_def)
  from frames_velocity [OF assms(1), of cams] nz pos
  have "0.1 \<le> vlength (multiplyScalar (velocity c) (0.9 ^ ?n))"
    by auto
  then have "0.1 \<le> 0.9 ^ ?n * ?m"
    by (simp add: vlength_multiplyScalar)
  moreover have m0: "0 \<le> ?m"
    by (cases "velocity c") simp
  have "0.9 ^ ?n * ?m \<le> 9 / (9 + real ?n) * ?m"
    using decay_power [of ?n] m0 by (rule mult_right_mono)
  ultimately have "0.1 \<le> 9 / (9 + real ?n) * ?m"
    by linarith
  then have "9 + real ?n \<le> 90 * ?m"
    by (simp add: field_simps)
  moreover have "90 * ?m < real ?n"
  proof -
    have "90 * ?m \<le> real_of_int \<lceil>90 * ?m\<rceil>" by (rule le_of_int_ceiling)
    moreover have "real_of_int \<lceil>90 * ?m\<rceil> \<le> real (nat \<lceil>90 * ?m\<rceil>)" by simp
    moreover have "real (nat \<lceil>90 * ?m\<rceil>) < real ?n"
      using assms(2) by (simp add: decay_frames_def)
    ultimately show ?thesis by linarith
  qed
  ultimately show False by linarith
qed

theorem velocity_decays_to_zero_witness:
  "no_movement_key (keys drifting_controls) \<and>
   decay_frames (vlength (velocity drifting_controls)) \<le> length (replicate 91 level_camera) \<and>
   velocity (run drifting_controls (map Frame (replicate 91 level_camera))) = Vector3 0 0 0"
proof -
  have idle: "no_movement_key (keys drifting_controls)"
    by (simp add: no_movement_key_def held_def drifting_controls_def initial_controls_def)
  have enough: "decay_frames (vlength (velocity drifting_controls)) \<le>
      length (replicate 91 level_camera)"
    by (simp add: decay_frames_def drifting_controls_def)
  from velocity_decays_to_zero [OF idle enough] idle enough show ?thesis
    by simp
qed

end
